theory Spec2Isabelle
  imports Complex_Main "HOL-Library.Option_ord" "HOL-Library.Product_Lexorder"
begin

section \<open>Data model (database.py)\<close>

text \<open>
  The two tables of \<^verbatim>\<open>database.py\<close>. Only the primary key and \<^verbatim>\<open>User.email\<close>,
  \<^verbatim>\<open>User.hashed_password\<close> are declared non-nullable; every other column may hold
  \<^verbatim>\<open>None\<close>, which \<^verbatim>\<open>ml/predict.py\<close> tests for explicitly. Python floats are
  modelled as exact rationals, Python integers as \<open>int\<close>.
\<close>

record date =
  date_year :: nat
  date_month :: nat
  date_day :: nat

record Entry =
  entry_id :: int
  entry_date :: "date option"
  sleep_hours :: "rat option"
  mood :: "int option"
  productivity :: "int option"

record User =
  user_id :: int
  email :: string
  hashed_password :: string
  is_active :: bool

text \<open>Errors the endpoints can leave with: an \<^verbatim>\<open>HTTPException\<close> with its status code
  and detail, or an uncaught Python exception.\<close>

datatype error = HTTPException nat string | TypeError | ValueError | KeyError | ZeroDivisionError

section \<open>Queries\<close>

text \<open>A table is the list of its rows in storage order. \<^verbatim>\<open>query.all()\<close> returns the
  rows as stored, \<^verbatim>\<open>query.filter(c).first()\<close> the first row satisfying \<open>c\<close>.\<close>

definition query_all :: "'a list \<Rightarrow> 'a list" where
  "query_all tbl = tbl"

definition query_first :: "('a \<Rightarrow> bool) \<Rightarrow> 'a list \<Rightarrow> 'a option" where
  "query_first c tbl = find c tbl"

section \<open>Deleting an entry (main.py, delete_entry)\<close>

text \<open>\<^verbatim>\<open>db.delete(entry)\<close> removes the row with the entry's primary key. The endpoint
  returns the new table and its acknowledgment.\<close>

definition db_delete :: "Entry \<Rightarrow> Entry list \<Rightarrow> Entry list" where
  "db_delete e tbl = filter (\<lambda>r. entry_id r \<noteq> entry_id e) tbl"

definition delete_entry :: "int \<Rightarrow> Entry list \<Rightarrow> Entry list \<times> (error + string)" where
  "delete_entry eid tbl =
     (case query_first (\<lambda>e. entry_id e = eid) tbl of
        Some entry \<Rightarrow> (db_delete entry tbl, Inr ''Entry deleted'')
      | None \<Rightarrow> (tbl, Inr ''Entry deleted''))"

section \<open>Registration and login (main.py, register and login)\<close>

text \<open>\<^verbatim>\<open>hash_password\<close> and \<^verbatim>\<open>verify_password\<close> wrap the passlib bcrypt context,
  which is outside the repository: both are parameters. The hash is salted, so
  \<open>hash_pw\<close> stands for the hashing of one call, with the salt it drew. The new row's
  primary key is assigned by the database; \<open>new_id\<close> stands for it.\<close>

definition register ::
  "(string \<Rightarrow> string) \<Rightarrow> int \<Rightarrow> string \<Rightarrow> string \<Rightarrow> User list \<Rightarrow> User list \<times> (error + string)" where
  "register hash_pw new_id em password tbl =
     (case query_first (\<lambda>u. email u = em) tbl of
        Some u \<Rightarrow> (tbl, Inl (HTTPException 400 ''Email exists''))
      | None \<Rightarrow>
          (tbl @ [\<lparr>user_id = new_id, email = em, hashed_password = hash_pw password,
                   is_active = True\<rparr>],
           Inr ''Registered''))"

definition login ::
  "(string \<Rightarrow> string \<Rightarrow> bool) \<Rightarrow> string \<Rightarrow> string \<Rightarrow> User list \<Rightarrow> error + string \<times> string" where
  "login verify_pw em password tbl =
     (case query_first (\<lambda>u. email u = em) tbl of
        None \<Rightarrow> Inl (HTTPException 401 ''Invalid credentials'')
      | Some user \<Rightarrow>
          if \<not> verify_pw password (hashed_password user)
          then Inl (HTTPException 401 ''Invalid credentials'')
          else Inr (''Login success'', email user))"

section \<open>Python values and numeric helpers\<close>

text \<open>The dictionaries and lists the functions return (and \<^verbatim>\<open>cluster_days\<close>,
  \<^verbatim>\<open>explain_clusters\<close> receive) are dynamically typed. A dictionary is an association
  list in insertion order; all dictionaries that cross a function boundary here are keyed
  by strings.\<close>

datatype pyval = PyNone | PyInt int | PyFloat rat | PyStr string
  | PyList "pyval list" | PyDict "(string \<times> pyval) list"


text \<open>\<^verbatim>\<open>round(x, n)\<close>: to \<open>n\<close> decimals, ties to the even neighbour.\<close>

definition round_half_even :: "rat \<Rightarrow> int" where
  "round_half_even x =
     (let f = \<lfloor>x\<rfloor>; d = x - of_int f
      in if d < 1 / 2 then f else if 1 / 2 < d then f + 1 else if even f then f else f + 1)"

definition py_round :: "rat \<Rightarrow> nat \<Rightarrow> rat" where
  "py_round x n = of_int (round_half_even (x * 10 ^ n)) / 10 ^ n"


text \<open>\<^verbatim>\<open>np.mean\<close> of a non-empty list of numbers; the callers below never pass the
  empty list. A \<^verbatim>\<open>None\<close> among the elements makes numpy raise \<^verbatim>\<open>TypeError\<close>.\<close>

definition np_mean :: "rat list \<Rightarrow> rat" where
  "np_mean xs = sum_list xs / of_nat (length xs)"

definition np_mean_col :: "rat option list \<Rightarrow> error + rat" where
  "np_mean_col xs = (case those xs of None \<Rightarrow> Inl TypeError | Some ys \<Rightarrow> Inr (np_mean ys))"

definition sleep_col :: "Entry list \<Rightarrow> rat option list" where
  "sleep_col entries = map sleep_hours entries"

definition prod_col :: "Entry list \<Rightarrow> rat option list" where
  "prod_col entries = map (\<lambda>e. map_option of_int (productivity e)) entries"

definition mood_col :: "Entry list \<Rightarrow> rat option list" where
  "mood_col entries = map (\<lambda>e. map_option of_int (mood e)) entries"

section \<open>Prediction (ml/predict.py, train_and_predict)\<close>

text \<open>\<open>lr X y x\<close> stands for sklearn's
  \<^verbatim>\<open>LinearRegression().fit(X, y).predict([[x]])[0]\<close>, a library call.\<close>

definition present_pairs :: "Entry list \<Rightarrow> (rat \<times> int) list" where
  "present_pairs entries =
     List.map_filter
       (\<lambda>e. case sleep_hours e of
               None \<Rightarrow> None
             | Some s \<Rightarrow> (case productivity e of None \<Rightarrow> None | Some p \<Rightarrow> Some (s, p)))
       entries"

definition train_and_predict ::
  "(rat list \<Rightarrow> int list \<Rightarrow> rat \<Rightarrow> rat) \<Rightarrow> Entry list \<Rightarrow> rat \<Rightarrow> pyval" where
  "train_and_predict lr entries target =
     (let data = present_pairs entries
      in if length data = 0 then
           PyDict [(''predicted_productivity'', PyFloat 5),
                   (''mode'', PyStr ''no-data''),
                   (''confidence'', PyInt 20)]
         else if length data < 4 then
           (let avg = np_mean (map (\<lambda>(s, p). of_int p) data);
                confidence = min 60 (30 + int (length data) * 10)
            in PyDict [(''predicted_productivity'', PyFloat (py_round avg 2)),
                       (''mode'', PyStr ''average''),
                       (''confidence'', PyInt confidence)])
         else
           (let X = map fst data;
                y = map snd data;
                prediction = lr X y target;
                prediction = max 1 (min 10 prediction)
            in PyDict [(''predicted_productivity'', PyFloat (py_round prediction 2)),
                       (''mode'', PyStr ''regression''),
                       (''confidence'', PyInt 75)]))"

text \<open>Ordinary least squares with an intercept in exact arithmetic, the fit that
  \<^verbatim>\<open>LinearRegression\<close> documents; with all abscissae equal the minimum-norm
  solution has slope 0.\<close>

definition ols_predict :: "rat list \<Rightarrow> int list \<Rightarrow> rat \<Rightarrow> rat" where
  "ols_predict X y target =
     (let mx = np_mean X;
          my = np_mean (map of_int y);
          sxx = sum_list (map (\<lambda>a. (a - mx) * (a - mx)) X);
          sxy = sum_list (map (\<lambda>(a, b). (a - mx) * (of_int b - my)) (zip X y));
          slope = (if sxx = 0 then 0 else sxy / sxx)
      in my + slope * (target - mx))"

section \<open>Burnout score (main.py, burnout_score)\<close>




section \<open>Observations and example data\<close>


definition mk_entry :: "int \<Rightarrow> rat \<Rightarrow> int \<Rightarrow> Entry" where
  "mk_entry i s p =
     \<lparr>entry_id = i, entry_date = None, sleep_hours = Some s, mood = Some 5, productivity = Some p\<rparr>"

definition e1 :: Entry where
  "e1 = \<lparr>entry_id = 1, entry_date = None, sleep_hours = Some (103 / 16), mood = Some 5,
          productivity = Some 3\<rparr>"

definition e8 :: Entry where
  "e8 = \<lparr>entry_id = 2, entry_date = None, sleep_hours = Some 8, mood = Some 7,
          productivity = Some 8\<rparr>"

definition alice :: User where
  "alice = \<lparr>user_id = 1, email = ''a@x.org'', hashed_password = ''#pw1'', is_active = True\<rparr>"

definition toy_hash :: "string \<Rightarrow> string" where
  "toy_hash p = CHR ''#'' # p"

definition toy_verify :: "string \<Rightarrow> string \<Rightarrow> bool" where
  "toy_verify p h = (h = CHR ''#'' # p)"

section \<open>Text of the messages\<close>

text \<open>The source's strings are Unicode; the three non-ASCII characters they use appear here
  in their UTF-8 encoding.\<close>

definition rsquo :: string where
  "rsquo = [CHR 0xE2, CHR 0x80, CHR 0x99]"

definition mdash :: string where
  "mdash = [CHR 0xE2, CHR 0x80, CHR 0x94]"

definition ndash :: string where
  "ndash = [CHR 0xE2, CHR 0x80, CHR 0x93]"

section \<open>Insights (main.py, ai_insights)\<close>

text \<open>\<^verbatim>\<open>order_by(Entry.date)\<close>: the rows by ascending date, \<^verbatim>\<open>NULL\<close> dates first.\<close>

definition date_key :: "Entry \<Rightarrow> (nat \<times> nat \<times> nat) option" where
  "date_key e = map_option (\<lambda>d. (date_year d, date_month d, date_day d)) (entry_date e)"

definition query_order_by_date :: "Entry list \<Rightarrow> Entry list" where
  "query_order_by_date tbl = sort_key date_key tbl"

text \<open>\<^verbatim>\<open>xs[-3:]\<close>\<close>

definition last3 :: "'a list \<Rightarrow> 'a list" where
  "last3 xs = drop (length xs - 3) xs"

definition insights_not_enough :: string where
  "insights_not_enough =
     ''You'' @ rsquo @ ''re just getting started. Add a few more daily entries and I'' @ rsquo @
     ''ll begin spotting meaningful patterns for you.''"

text \<open>\<open>fmt\<close> stands for the formatting of a float inside an f-string.\<close>

definition ai_insights :: "(rat \<Rightarrow> string) \<Rightarrow> Entry list \<Rightarrow> error + pyval" where
  "ai_insights fmt tbl =
     (let entries = query_order_by_date tbl
      in if length entries < 3 then
           Inr (PyDict [(''insights'', PyList [PyStr insights_not_enough])])
         else
           (case (those (sleep_col entries), those (prod_col entries), those (mood_col entries)) of
              (Some sleep_vals, Some prod_vals, Some mood_vals) \<Rightarrow>
                (let avg_sleep = py_round (np_mean sleep_vals) 2;
                     avg_prod = py_round (np_mean prod_vals) 2;
                     avg_mood = py_round (np_mean mood_vals) 2;
                     recent_sleep = np_mean (last3 sleep_vals);
                     recent_prod = np_mean (last3 prod_vals);
                     insights = [];
                     insights = insights @
                       (if avg_sleep < 6 then
                          [''Your average sleep is around '' @ fmt avg_sleep @
                           '' hours, which is below the recommended range. This could be quietly impacting your focus and energy levels.'']
                        else if 7 \<le> avg_sleep then
                          [''You'' @ rsquo @ ''re averaging about '' @ fmt avg_sleep @
                           '' hours of sleep '' @ mdash @ '' that'' @ rsquo @
                           ''s a solid foundation for sustained productivity.'']
                        else []);
                     insights = insights @
                       (if recent_sleep < avg_sleep \<and> recent_prod < avg_prod then
                          [''In the last few days, both sleep and productivity have dipped together. This pattern often appears just before burnout '' @
                           mdash @ '' it might be a good time to slow down and reset.'']
                        else []);
                     insights = insights @
                       (if 7 \<le> avg_prod then
                          [''Your productivity levels are consistently strong. Whatever routine you'' @
                           rsquo @ ''re following lately seems to be working well '' @ mdash @
                           '' try to protect it.'']
                        else if avg_prod < 5 then
                          [''Productivity has been on the lower side overall. Small changes like better sleep timing or short breaks could make a noticeable difference.'']
                        else []);
                     insights = insights @
                       (if 6 \<le> avg_mood \<and> 6 \<le> avg_prod then
                          [''There'' @ rsquo @ ''s a positive link between your mood and productivity '' @
                           mdash @
                           '' on days you feel better mentally, you tend to perform better too.'']
                        else []);
                     insights = insights @
                       [''Remember: trends matter more than single days. Consistency beats perfection '' @
                        mdash @
                        '' keep tracking, and the patterns will become clearer over time.'']
                 in Inr (PyDict [(''insights'', PyList (map PyStr insights))]))
            | _ \<Rightarrow> Inl TypeError))"

section \<open>Mood and productivity correlation (main.py, mood_productivity_correlation)\<close>

text \<open>\<open>pearsonr\<close> stands for the first component of scipy's \<^verbatim>\<open>pearsonr(moods, prods)\<close>.\<close>

definition mood_productivity_correlation ::
  "(int list \<Rightarrow> int list \<Rightarrow> rat) \<Rightarrow> Entry list \<Rightarrow> error + pyval" where
  "mood_productivity_correlation pearsonr tbl =
     (let entries = query_all tbl
      in if length entries < 3 then
           Inr (PyDict [(''correlation'', PyNone),
                        (''message'',
                         PyStr ''Not enough data to analyze mood and productivity relationship.'')])
         else
           (case (those (map mood entries), those (map productivity entries)) of
              (Some moods, Some prods) \<Rightarrow>
                (let corr = pearsonr moods prods;
                     strength =
                       (if 6 / 10 < \<bar>corr\<bar> then ''Strong''
                        else if 3 / 10 < \<bar>corr\<bar> then ''Moderate''
                        else ''Weak'')
                 in Inr (PyDict [(''correlation'', PyFloat (py_round corr 2)),
                                 (''strength'', PyStr strength),
                                 (''message'',
                                  PyStr (strength @
                                    '' relationship between mood and productivity detected.''))]))
            | _ \<Rightarrow> Inl TypeError))"

section \<open>Recommendations (main.py, recommendations)\<close>

definition recommendations_not_enough :: string where
  "recommendations_not_enough =
     ''Track your sleep, mood, and productivity for a few more days to unlock personalized recommendations.''"

definition recommendations :: "Entry list \<Rightarrow> error + pyval" where
  "recommendations tbl =
     (let entries = query_order_by_date tbl
      in if length entries < 3 then
           Inr (PyDict [(''recommendations'', PyList [PyStr recommendations_not_enough])])
         else
           (case (those (sleep_col entries), those (prod_col entries)) of
              (Some sleep_vals, Some prod_vals) \<Rightarrow>
                (let avg_sleep = np_mean sleep_vals;
                     avg_prod = np_mean prod_vals;
                     recent_sleep = np_mean (last3 sleep_vals);
                     recs = [];
                     recs = recs @
                       (if avg_sleep < 6 then
                          [''You'' @ rsquo @
                           ''ve been sleeping less than ideal. Try going to bed 30'' @ ndash @
                           ''45 minutes earlier for the next few days and see how your energy responds.'']
                        else []);
                     recs = recs @
                       (if avg_prod < 5 then
                          [''Productivity has been lower recently. Consider breaking tasks into smaller chunks or scheduling demanding work during your most alert hours.'']
                        else []);
                     recs = recs @
                       (if recent_sleep < avg_sleep then
                          [''Your sleep has dipped recently compared to your average. This could explain recent fatigue '' @
                           mdash @ '' prioritizing rest now may prevent burnout later.'']
                        else []);
                     recs = recs @
                       (if recs = [] then
                          [''Your habits look balanced overall. Focus on maintaining consistency rather than pushing harder.'']
                        else [])
                 in Inr (PyDict [(''recommendations'', PyList (map PyStr recs))]))
            | _ \<Rightarrow> Inl TypeError))"

section \<open>Conversions of Python values\<close>

text \<open>\<^verbatim>\<open>str(i)\<close> for an integer: its decimal digits, with a minus sign when negative.\<close>

definition digit_char :: "nat \<Rightarrow> char" where
  "digit_char n = char_of (48 + n)"

fun str_nat :: "nat \<Rightarrow> string" where
  "str_nat n = (if n < 10 then [digit_char n] else str_nat (n div 10) @ [digit_char (n mod 10)])"

declare str_nat.simps [simp del]

definition str_int :: "int \<Rightarrow> string" where
  "str_int i = (if i < 0 then CHR ''-'' # str_nat (nat (- i)) else str_nat (nat i))"






section \<open>Clustering (ml/clustering.py, cluster_days)\<close>







section \<open>Narration (services/ai_insights.py, explain_clusters)\<close>













section \<open>Best sleep range (main.py, best_sleep_range)\<close>










section \<open>CSV export (main.py, export_csv)\<close>

text \<open>\<^verbatim>\<open>str(d)\<close> for a date is its ISO form: the year padded with zeros to 4 digits, the
  month and the day to 2.\<close>

definition zero_pad :: "nat \<Rightarrow> string \<Rightarrow> string" where
  "zero_pad n s = replicate (n - length s) (CHR ''0'') @ s"

definition str_date :: "date \<Rightarrow> string" where
  "str_date d =
     zero_pad 4 (str_nat (date_year d)) @ ''-'' @ zero_pad 2 (str_nat (date_month d)) @ ''-'' @
     zero_pad 2 (str_nat (date_day d))"

text \<open>The \<^verbatim>\<open>csv\<close> writer of the default dialect: a field is quoted (with its quotes
  doubled) only when it contains the delimiter, the quote character or a character of the line
  terminator; the fields of a row are joined by commas and the row ends with CR LF. A row
  that is a single empty field is written as two quotes.\<close>

definition csv_special :: "char \<Rightarrow> bool" where
  "csv_special c = (c = CHR '','' \<or> c = CHR 0x22 \<or> c = CHR 0x0D \<or> c = CHR 0x0A)"

definition csv_field :: "string \<Rightarrow> string" where
  "csv_field s =
     (if list_ex csv_special s
      then CHR 0x22 # concat (map (\<lambda>c. if c = CHR 0x22 then [CHR 0x22, CHR 0x22] else [c]) s) @
           [CHR 0x22]
      else s)"

fun join_fields :: "string list \<Rightarrow> string" where
  "join_fields [] = []"
| "join_fields [f] = f"
| "join_fields (f # g # fs) = f @ CHR '','' # join_fields (g # fs)"

definition writerow :: "string list \<Rightarrow> string" where
  "writerow row =
     (if row = [[]] then [CHR 0x22, CHR 0x22] else join_fields (map csv_field row)) @
     [CHR 0x0D, CHR 0x0A]"

text \<open>The text the writer puts for each cell: nothing for \<^verbatim>\<open>None\<close>, \<^verbatim>\<open>repr\<close> of a
  float (a parameter), \<^verbatim>\<open>str\<close> otherwise.\<close>

definition cell :: "('a \<Rightarrow> string) \<Rightarrow> 'a option \<Rightarrow> string" where
  "cell to_str v = (case v of None \<Rightarrow> [] | Some x \<Rightarrow> to_str x)"

definition entry_cells :: "(rat \<Rightarrow> string) \<Rightarrow> Entry \<Rightarrow> string list" where
  "entry_cells float_repr e =
     [cell str_date (entry_date e), cell float_repr (sleep_hours e), cell str_int (mood e),
      cell str_int (productivity e)]"

record streaming_response =
  body :: string
  media_type :: string
  content_disposition :: string

definition export_csv :: "(rat \<Rightarrow> string) \<Rightarrow> Entry list \<Rightarrow> streaming_response" where
  "export_csv float_repr tbl =
     (let entries = query_all tbl;
          output = writerow [''Date'', ''Sleep Hours'', ''Mood'', ''Productivity''];
          output = output @ concat (map (\<lambda>e. writerow (entry_cells float_repr e)) entries)
      in \<lparr>body = output, media_type = ''text/csv'',
          content_disposition = ''attachment; filename=life_analytics_report.csv''\<rparr>)"

section \<open>Reading an export back\<close>

text \<open>Modelled from the spec: the parsing of the export, which the round-trip property
  speaks of and no file of the repository contains. It is taken to be the \<^verbatim>\<open>csv\<close> reader on text without quoted fields, which splits the text
  into lines at CR LF and a line into fields at the commas, followed by the conversion of
  each cell back to a value: an empty cell is \<^verbatim>\<open>None\<close>, a date is read from its ISO
  form, an integer from its decimal digits, and a float by a parameter that stands for
  \<^verbatim>\<open>float(s)\<close>.\<close>

fun csv_lines :: "string \<Rightarrow> string list" where
  "csv_lines [] = []"
| "csv_lines [c] = [[c]]"
| "csv_lines (c # d # cs) =
     (if c = CHR 0x0D \<and> d = CHR 0x0A then [] # csv_lines cs
      else (case csv_lines (d # cs) of [] \<Rightarrow> [[c]] | l # ls \<Rightarrow> (c # l) # ls))"

fun split_on :: "char \<Rightarrow> string \<Rightarrow> string list" where
  "split_on sep [] = [[]]"
| "split_on sep (c # cs) =
     (if c = sep then [] # split_on sep cs
      else (case split_on sep cs of [] \<Rightarrow> [[c]] | f # fs \<Rightarrow> (c # f) # fs))"

definition is_digit :: "char \<Rightarrow> bool" where
  "is_digit c = (48 \<le> (of_char c :: nat) \<and> (of_char c :: nat) \<le> 57)"

definition digits_value :: "string \<Rightarrow> nat" where
  "digits_value s = foldl (\<lambda>a c. 10 * a + (of_char c - 48)) 0 s"

definition parse_nat :: "string \<Rightarrow> nat option" where
  "parse_nat s = (if s \<noteq> [] \<and> list_all is_digit s then Some (digits_value s) else None)"

definition parse_int :: "string \<Rightarrow> int option" where
  "parse_int s =
     (case s of
        [] \<Rightarrow> None
      | c # cs \<Rightarrow> if c = CHR ''-'' then map_option (\<lambda>n. - int n) (parse_nat cs)
                 else map_option int (parse_nat s))"

definition parse_date :: "string \<Rightarrow> date option" where
  "parse_date s =
     (case split_on (CHR ''-'') s of
        [y, m, d] \<Rightarrow>
          (case (parse_nat y, parse_nat m, parse_nat d) of
             (Some yy, Some mm, Some dd) \<Rightarrow> Some \<lparr>date_year = yy, date_month = mm, date_day = dd\<rparr>
           | _ \<Rightarrow> None)
      | _ \<Rightarrow> None)"

definition parse_cell :: "(string \<Rightarrow> 'a option) \<Rightarrow> string \<Rightarrow> 'a option option" where
  "parse_cell of_str s = (if s = [] then Some None else map_option Some (of_str s))"

definition parse_row ::
  "(string \<Rightarrow> rat option) \<Rightarrow> string \<Rightarrow>
   (date option \<times> rat option \<times> int option \<times> int option) option" where
  "parse_row float_of_repr line =
     (case split_on (CHR '','') line of
        [d, s, m, p] \<Rightarrow>
          (case (parse_cell parse_date d, parse_cell float_of_repr s, parse_cell parse_int m,
                 parse_cell parse_int p) of
             (Some dv, Some sv, Some mv, Some pv) \<Rightarrow> Some (dv, sv, mv, pv)
           | _ \<Rightarrow> None)
      | _ \<Rightarrow> None)"

definition parse_export ::
  "(string \<Rightarrow> rat option) \<Rightarrow> string \<Rightarrow>
   (string list \<times> (date option \<times> rat option \<times> int option \<times> int option) list) option" where
  "parse_export float_of_repr txt =
     (case csv_lines txt of
        [] \<Rightarrow> None
      | header # rows \<Rightarrow>
          (case those (map (parse_row float_of_repr) rows) of
             None \<Rightarrow> None
           | Some tuples \<Rightarrow> Some (split_on (CHR '','') header, tuples)))"

definition entry_tuple :: "Entry \<Rightarrow> date option \<times> rat option \<times> int option \<times> int option" where
  "entry_tuple e = (entry_date e, sleep_hours e, mood e, productivity e)"

text \<open>What the round trip needs of the \<^verbatim>\<open>repr\<close> of the sleep hours of an entry.\<close>

definition repr_ok :: "(rat \<Rightarrow> string) \<Rightarrow> (string \<Rightarrow> rat option) \<Rightarrow> Entry \<Rightarrow> bool" where
  "repr_ok float_repr float_of_repr e =
     (case sleep_hours e of
        None \<Rightarrow> True
      | Some x \<Rightarrow> float_of_repr (float_repr x) = Some x \<and> float_repr x \<noteq> [] \<and>
                  \<not> list_ex csv_special (float_repr x))"

section \<open>Example data for clustering\<close>





definition toy_repr :: "rat \<Rightarrow> string" where
  "toy_repr x = (if x = 15 / 2 then ''7.5'' else ''8.0'')"

definition toy_float :: "string \<Rightarrow> rat option" where
  "toy_float s = (if s = ''7.5'' then Some (15 / 2) else if s = ''8.0'' then Some 8 else None)"

definition csv_tbl :: "Entry list" where
  "csv_tbl =
     [\<lparr>entry_id = 1, entry_date = Some \<lparr>date_year = 2024, date_month = 3, date_day = 9\<rparr>,
       sleep_hours = Some (15 / 2), mood = Some 6, productivity = Some 8\<rparr>,
      \<lparr>entry_id = 2, entry_date = None, sleep_hours = Some 8, mood = None,
       productivity = Some (- 2)\<rparr>]"

section \<open>Properties\<close>

lemma find_None_iff_image: "find (\<lambda>e. f e = k) xs = None \<longleftrightarrow> k \<notin> f ` set xs"
  by (induction xs) auto

text \<open>
  C5. Deleting an entry id that no row of the table carries returns the success
  acknowledgment, not an error, and leaves the table exactly as it was.
\<close>

theorem delete_entry_absent:
  assumes "eid \<notin> entry_id ` set tbl"
  shows "delete_entry eid tbl = (tbl, Inr ''Entry deleted'')"
proof -
  from assms have "find (\<lambda>e. entry_id e = eid) tbl = None"
    by (simp add: find_None_iff_image)
  then show ?thesis
    by (simp add: delete_entry_def query_first_def)
qed

theorem delete_entry_absent_witness:
  "(7::int) \<notin> entry_id ` set [\<lparr>entry_id = 1, entry_date = None, sleep_hours = Some 8,
       mood = Some 5, productivity = Some 6\<rparr>]
   \<and> delete_entry 7 [\<lparr>entry_id = 1, entry_date = None, sleep_hours = Some 8,
       mood = Some 5, productivity = Some 6\<rparr>]
     = ([\<lparr>entry_id = 1, entry_date = None, sleep_hours = Some 8,
       mood = Some 5, productivity = Some 6\<rparr>], Inr ''Entry deleted'')"
  using delete_entry_absent [of 7 "[\<lparr>entry_id = 1, entry_date = None, sleep_hours = Some 8,
       mood = Some 5, productivity = Some 6\<rparr>]"]
  by simp

section \<open>Properties of the numeric helpers, prediction and burnout score\<close>

lemma those_map_Some: "those (map Some ys) = Some ys"
  by (induction ys) simp_all

lemma those_SomeD: "those xs = Some ys \<Longrightarrow> xs = map Some ys"
proof (induction xs arbitrary: ys)
  case Nil
  then show ?case by simp
next
  case (Cons x xs)
  then show ?case
    by (cases x; cases "those xs") auto
qed

lemma those_eq_Some_iff: "those xs = Some ys \<longleftrightarrow> xs = map Some ys"
  using those_SomeD those_map_Some by blast

lemma np_mean_col_Inr_iff:
  "np_mean_col xs = Inr a \<longleftrightarrow> (\<exists>ys. xs = map Some ys \<and> a = sum_list ys / of_nat (length ys))"
proof (cases "those xs")
  case None
  have "xs \<noteq> map Some ys" for ys
  proof
    assume "xs = map Some ys"
    then have "those xs = Some ys" by (simp add: those_map_Some)
    with None show False by simp
  qed
  with None show ?thesis by (simp add: np_mean_col_def)
next
  case (Some zs)
  then have xs: "xs = map Some zs" by (rule those_SomeD)
  have "np_mean_col xs = Inr (sum_list zs / of_nat (length zs))"
    using Some by (simp add: np_mean_col_def np_mean_def)
  moreover have "(\<exists>ys. xs = map Some ys \<and> a = sum_list ys / of_nat (length ys))
      \<longleftrightarrow> a = sum_list zs / of_nat (length zs)"
    unfolding xs by (auto simp: map_eq_conv inj_map_eq_map)
  ultimately show ?thesis by auto
qed

text \<open>
  C1, as amended. Over the pairs (sleep hours, productivity) of the entries with both fields
  present, \<^verbatim>\<open>train_and_predict\<close> returns: with no pair the value 5.0, mode "no-data",
  confidence 20; with 1 to 3 pairs mode "average", the mean of the productivity values rounded
  to 2 decimals and confidence min(60, 30 + 10 * count); with 4 or more pairs mode
  "regression", confidence 75 and the library's prediction at the target, clamped to [1, 10]
  and then rounded to 2 decimals.
\<close>

theorem train_and_predict_modes:
  "(length (present_pairs es) = 0 \<longrightarrow>
      train_and_predict lr es target =
        PyDict [(''predicted_productivity'', PyFloat 5), (''mode'', PyStr ''no-data''),
                (''confidence'', PyInt 20)]) \<and>
   (1 \<le> length (present_pairs es) \<and> length (present_pairs es) \<le> 3 \<longrightarrow>
      train_and_predict lr es target =
        PyDict [(''predicted_productivity'',
                   PyFloat (py_round (sum_list (map (of_int \<circ> snd) (present_pairs es))
                                        / of_nat (length (present_pairs es))) 2)),
                (''mode'', PyStr ''average''),
                (''confidence'', PyInt (min 60 (30 + 10 * int (length (present_pairs es)))))]) \<and>
   (4 \<le> length (present_pairs es) \<longrightarrow>
      train_and_predict lr es target =
        PyDict [(''predicted_productivity'',
                   PyFloat (py_round (max 1 (min 10
                      (lr (map fst (present_pairs es)) (map snd (present_pairs es)) target))) 2)),
                (''mode'', PyStr ''regression''),
                (''confidence'', PyInt 75)])"
proof -
  have "(\<lambda>(s :: rat, p). of_int p) = ((of_int :: int \<Rightarrow> rat) \<circ> snd)"
    by (simp add: fun_eq_iff)
  then show ?thesis
    by (simp add: train_and_predict_def Let_def np_mean_def mult.commute)
qed



lemma round_half_even_eqI:
  assumes "of_int f - 1 / 2 < x" and "x < of_int f + 1 / 2"
  shows "round_half_even x = f"
proof (cases "of_int f \<le> x")
  case True
  with assms have fl: "\<lfloor>x\<rfloor> = f" by (simp add: floor_eq_iff)
  with assms show ?thesis by (simp add: round_half_even_def Let_def)
next
  case False
  with assms have fl: "\<lfloor>x\<rfloor> = f - 1" by (simp add: floor_eq_iff)
  with assms False show ?thesis by (simp add: round_half_even_def Let_def)
qed

lemma py_round_eqI:
  assumes "of_int f - 1 / 2 < x * 10 ^ n" and "x * 10 ^ n < of_int f + 1 / 2"
  shows "py_round x n = of_int f / 10 ^ n"
  using round_half_even_eqI [OF assms] by (simp add: py_round_def)

lemma round_b: "py_round (105 / 16) 2 = 164 / 25"
  using py_round_eqI [of 656 "105 / 16" 2] by simp

lemma round_a: "py_round 5 2 = 5"
  using py_round_eqI [of 500 5 2] by simp

lemma pairs2: "present_pairs [mk_entry 1 7 4, mk_entry 2 8 6] = [(7, 4), (8, 6)]"
  by (simp add: present_pairs_def mk_entry_def List.map_filter_simps)

lemma pairs4: "present_pairs [mk_entry 1 5 4, mk_entry 2 6 5, mk_entry 3 7 6, mk_entry 4 8 8] = [(5, 4), (6, 5), (7, 6), (8, 8)]"
  by (simp add: present_pairs_def mk_entry_def List.map_filter_simps)

lemma ols4: "ols_predict [5, 6, 7, 8] [4, 5, 6, 8] (57 / 8) = 105 / 16"
  by (simp add: ols_predict_def np_mean_def Let_def)

text \<open>
  The three modes at concrete inputs, among them the specification's example: two pairs with
  productivity 4 and 6 give 5.0, "average", 50.
\<close>

theorem train_and_predict_modes_witness:
  "train_and_predict ols_predict [] (57 / 8) =
     PyDict [(''predicted_productivity'', PyFloat 5), (''mode'', PyStr ''no-data''),
             (''confidence'', PyInt 20)] \<and>
   train_and_predict ols_predict [mk_entry 1 7 4, mk_entry 2 8 6] (57 / 8) =
     PyDict [(''predicted_productivity'', PyFloat 5), (''mode'', PyStr ''average''),
             (''confidence'', PyInt 50)] \<and>
   train_and_predict ols_predict
       [mk_entry 1 5 4, mk_entry 2 6 5, mk_entry 3 7 6, mk_entry 4 8 8] (57 / 8) =
     PyDict [(''predicted_productivity'', PyFloat (164 / 25)), (''mode'', PyStr ''regression''),
             (''confidence'', PyInt 75)]"
proof -
  have p0: "present_pairs [] = []"
    by (simp add: present_pairs_def List.map_filter_simps)
  note t0 = train_and_predict_modes [of "[]" ols_predict "57 / 8"]
  note t2 = train_and_predict_modes [of "[mk_entry 1 7 4, mk_entry 2 8 6]" ols_predict "57 / 8"]
  note t4 = train_and_predict_modes
    [of "[mk_entry 1 5 4, mk_entry 2 6 5, mk_entry 3 7 6, mk_entry 4 8 8]" ols_predict "57 / 8"]
  from t0 have "train_and_predict ols_predict [] (57 / 8) =
     PyDict [(''predicted_productivity'', PyFloat 5), (''mode'', PyStr ''no-data''),
             (''confidence'', PyInt 20)]"
    by (simp add: p0)
  moreover from t2 have "train_and_predict ols_predict [mk_entry 1 7 4, mk_entry 2 8 6] (57 / 8) =
     PyDict [(''predicted_productivity'', PyFloat 5), (''mode'', PyStr ''average''),
             (''confidence'', PyInt 50)]"
    by (simp add: pairs2 round_a)
  moreover from t4 have "train_and_predict ols_predict
       [mk_entry 1 5 4, mk_entry 2 6 5, mk_entry 3 7 6, mk_entry 4 8 8] (57 / 8) =
     PyDict [(''predicted_productivity'', PyFloat (164 / 25)), (''mode'', PyStr ''regression''),
             (''confidence'', PyInt 75)]"
    by (simp add: pairs4 ols4 round_b)
  ultimately show ?thesis by simp
qed

text \<open>
  C1 as stated fails in the regression mode: the value returned is not the clamped
  least-squares prediction but its rounding to 2 decimals. For the pairs (5,4), (6,5), (7,6),
  (8,8) and the target 7.125 the clamped prediction is 6.5625 and 6.56 is returned.
\<close>

theorem train_and_predict_regression_unrounded_counterexample:
  "train_and_predict ols_predict
       [mk_entry 1 5 4, mk_entry 2 6 5, mk_entry 3 7 6, mk_entry 4 8 8] (57 / 8) =
     PyDict [(''predicted_productivity'', PyFloat (164 / 25)), (''mode'', PyStr ''regression''),
             (''confidence'', PyInt 75)] \<and>
   max 1 (min 10 (ols_predict [5, 6, 7, 8] [4, 5, 6, 8] (57 / 8))) = 105 / 16 \<and>
   (164 / 25 :: rat) \<noteq> 105 / 16"
  by (simp add: train_and_predict_def pairs4 ols4 round_b Let_def)

















section \<open>Properties of registration and login\<close>

lemma find_distinct_key:
  "distinct (map f xs) \<Longrightarrow> u \<in> set xs \<Longrightarrow> find (\<lambda>x. f x = f u) xs = Some u"
  by (induction xs) (auto simp: image_iff)

text \<open>
  C9. Registering an email that is already in the user table fails with the client error
  "Email exists" and adds no user. Logging in with an email that is not in the table, or with
  a password that does not verify against the stored hash, fails with the authorization error
  401; logging in with a password that verifies succeeds and returns the email. The email
  column is unique, so the row of an email is the one the lookup finds.
\<close>

theorem register_login_contract:
  "(em \<in> email ` set tbl \<longrightarrow>
      register hash_pw new_id em password tbl = (tbl, Inl (HTTPException 400 ''Email exists''))) \<and>
   (em \<notin> email ` set tbl \<longrightarrow>
      login verify_pw em password tbl = Inl (HTTPException 401 ''Invalid credentials'')) \<and>
   (distinct (map email tbl) \<and> u \<in> set tbl \<and> email u = em \<and>
      \<not> verify_pw password (hashed_password u) \<longrightarrow>
      login verify_pw em password tbl = Inl (HTTPException 401 ''Invalid credentials'')) \<and>
   (distinct (map email tbl) \<and> u \<in> set tbl \<and> email u = em \<and>
      verify_pw password (hashed_password u) \<longrightarrow>
      login verify_pw em password tbl = Inr (''Login success'', em))"
proof (intro conjI impI)
  assume "em \<in> email ` set tbl"
  then have "find (\<lambda>u. email u = em) tbl \<noteq> None"
    by (simp add: find_None_iff_image)
  then show "register hash_pw new_id em password tbl =
      (tbl, Inl (HTTPException 400 ''Email exists''))"
    by (auto simp: register_def query_first_def)
next
  assume "em \<notin> email ` set tbl"
  then have "find (\<lambda>u. email u = em) tbl = None"
    by (simp add: find_None_iff_image)
  then show "login verify_pw em password tbl = Inl (HTTPException 401 ''Invalid credentials'')"
    by (simp add: login_def query_first_def)
next
  assume a: "distinct (map email tbl) \<and> u \<in> set tbl \<and> email u = em \<and>
      \<not> verify_pw password (hashed_password u)"
  then have d: "distinct (map email tbl)" and m: "u \<in> set tbl" and e: "email u = em"
    by simp_all
  have "find (\<lambda>x. email x = em) tbl = Some u"
    using find_distinct_key [OF d m] unfolding e .
  with a show "login verify_pw em password tbl = Inl (HTTPException 401 ''Invalid credentials'')"
    by (auto simp: login_def query_first_def)
next
  assume a: "distinct (map email tbl) \<and> u \<in> set tbl \<and> email u = em \<and>
      verify_pw password (hashed_password u)"
  then have d: "distinct (map email tbl)" and m: "u \<in> set tbl" and e: "email u = em"
    by simp_all
  have "find (\<lambda>x. email x = em) tbl = Some u"
    using find_distinct_key [OF d m] unfolding e .
  with a show "login verify_pw em password tbl = Inr (''Login success'', em)"
    by (auto simp: login_def query_first_def)
qed

text \<open>A table with one user, and a toy hash for the bcrypt context.\<close>

theorem register_login_contract_witness:
  "register toy_hash 2 ''a@x.org'' ''pw2'' [alice] =
     ([alice], Inl (HTTPException 400 ''Email exists'')) \<and>
   login toy_verify ''b@x.org'' ''pw1'' [alice] = Inl (HTTPException 401 ''Invalid credentials'') \<and>
   login toy_verify ''a@x.org'' ''bad'' [alice] = Inl (HTTPException 401 ''Invalid credentials'') \<and>
   login toy_verify ''a@x.org'' ''pw1'' [alice] = Inr (''Login success'', ''a@x.org'')"
proof -
  have em: "email alice = ''a@x.org''" and hp: "hashed_password alice = ''#pw1''"
    by (simp_all add: alice_def)
  have 1: "''a@x.org'' \<in> email ` set [alice]" by (simp add: em)
  have 2: "''b@x.org'' \<notin> email ` set [alice]" by (simp add: em)
  have 3: "distinct (map email [alice]) \<and> alice \<in> set [alice] \<and> email alice = ''a@x.org'' \<and>
      \<not> toy_verify ''bad'' (hashed_password alice)"
    by (simp add: em hp toy_verify_def)
  have 4: "distinct (map email [alice]) \<and> alice \<in> set [alice] \<and> email alice = ''a@x.org'' \<and>
      toy_verify ''pw1'' (hashed_password alice)"
    by (simp add: em hp toy_verify_def)
  from register_login_contract [of "''a@x.org''" "[alice]" toy_hash 2 "''pw2''" toy_verify alice] 1
  have r1: "register toy_hash 2 ''a@x.org'' ''pw2'' [alice] =
     ([alice], Inl (HTTPException 400 ''Email exists''))" by blast
  from register_login_contract [of "''b@x.org''" "[alice]" toy_hash 2 "''pw1''" toy_verify alice] 2
  have r2: "login toy_verify ''b@x.org'' ''pw1'' [alice] =
     Inl (HTTPException 401 ''Invalid credentials'')" by blast
  from register_login_contract [of "''a@x.org''" "[alice]" toy_hash 2 "''bad''" toy_verify alice] 3
  have r3: "login toy_verify ''a@x.org'' ''bad'' [alice] =
     Inl (HTTPException 401 ''Invalid credentials'')" by blast
  from register_login_contract [of "''a@x.org''" "[alice]" toy_hash 2 "''pw1''" toy_verify alice] 4
  have r4: "login toy_verify ''a@x.org'' ''pw1'' [alice] = Inr (''Login success'', ''a@x.org'')"
    by blast
  from r1 r2 r3 r4 show ?thesis by blast
qed

text \<open>When the library verifies what it hashed, a registered user can log in.\<close>

lemma find_append_None: "find P xs = None \<Longrightarrow> find P (xs @ ys) = find P ys"
  by (induction xs) (auto split: if_splits)

lemma register_then_login:
  assumes "em \<notin> email ` set tbl" and "verify_pw password (hash_pw password)"
  shows "register hash_pw new_id em password tbl =
           (tbl @ [\<lparr>user_id = new_id, email = em, hashed_password = hash_pw password,
                     is_active = True\<rparr>], Inr ''Registered'')"
    and "login verify_pw em password (fst (register hash_pw new_id em password tbl)) =
           Inr (''Login success'', em)"
proof -
  from assms(1) have n: "find (\<lambda>u. email u = em) tbl = None"
    by (simp add: find_None_iff_image)
  then show r: "register hash_pw new_id em password tbl =
           (tbl @ [\<lparr>user_id = new_id, email = em, hashed_password = hash_pw password,
                     is_active = True\<rparr>], Inr ''Registered'')"
    by (simp add: register_def query_first_def)
  show "login verify_pw em password (fst (register hash_pw new_id em password tbl)) =
           Inr (''Login success'', em)"
    using n assms(2) by (simp add: r login_def query_first_def find_append_None)
qed

section \<open>Properties of the endpoints with a minimum of three entries\<close>

text \<open>
  C4. With fewer than 3 entries in the table, the insights endpoint, the recommendations
  endpoint and the mood-productivity-correlation endpoint each return their fixed
  "not enough data" response: one fixed insight, one fixed recommendation, a null correlation
  with a fixed message. The response does not depend on the entries that are present.
\<close>

theorem not_enough_data_fixed:
  assumes "length tbl < 3"
  shows "ai_insights fmt tbl = Inr (PyDict [(''insights'', PyList [PyStr insights_not_enough])]) \<and>
         recommendations tbl =
           Inr (PyDict [(''recommendations'', PyList [PyStr recommendations_not_enough])]) \<and>
         mood_productivity_correlation pearsonr tbl =
           Inr (PyDict [(''correlation'', PyNone),
                        (''message'',
                         PyStr ''Not enough data to analyze mood and productivity relationship.'')])"
  using assms
  by (simp add: ai_insights_def recommendations_def mood_productivity_correlation_def
      query_order_by_date_def query_all_def)

text \<open>A table of two entries.\<close>

theorem not_enough_data_fixed_witness:
  "length [e1, e8] < 3 \<and>
   ai_insights (\<lambda>x. ''7.22'') [e1, e8] =
     Inr (PyDict [(''insights'', PyList [PyStr insights_not_enough])]) \<and>
   recommendations [e1, e8] =
     Inr (PyDict [(''recommendations'', PyList [PyStr recommendations_not_enough])]) \<and>
   mood_productivity_correlation (\<lambda>ms ps. 1) [e1, e8] =
     Inr (PyDict [(''correlation'', PyNone),
                  (''message'',
                   PyStr ''Not enough data to analyze mood and productivity relationship.'')])"
proof -
  have l: "length [e1, e8] < 3" by simp
  from not_enough_data_fixed [OF l, of "\<lambda>x. ''7.22''" "\<lambda>ms ps. 1"] l
  show ?thesis by blast
qed

section \<open>Properties of clustering and narration\<close>















section \<open>Properties of the best sleep range\<close>



















section \<open>Properties of the CSV export\<close>

lemma of_char_digit_char: "n < 10 \<Longrightarrow> (of_char (digit_char n) :: nat) = 48 + n"
  by (simp add: digit_char_def)

lemma is_digit_digit_char: "n < 10 \<Longrightarrow> is_digit (digit_char n)"
  by (simp add: is_digit_def of_char_digit_char)

lemma str_nat_digits: "str_nat n \<noteq> [] \<and> list_all is_digit (str_nat n)"
proof (induction n rule: str_nat.induct)
  case (1 n)
  show ?case
  proof (cases "n < 10")
    case True
    then show ?thesis
      by (subst (1 2) str_nat.simps) (simp add: is_digit_digit_char)
  next
    case False
    then show ?thesis
      using 1 by (subst (1 2) str_nat.simps) (simp add: is_digit_digit_char)
  qed
qed

lemma digits_value_snoc:
  "digits_value (s @ [c]) = 10 * digits_value s + (of_char c - 48)"
  by (simp add: digits_value_def)

lemma digits_value_str_nat: "digits_value (str_nat n) = n"
proof (induction n rule: str_nat.induct)
  case (1 n)
  show ?case
  proof (cases "n < 10")
    case True
    then show ?thesis
      by (subst str_nat.simps) (simp add: digits_value_def of_char_digit_char)
  next
    case False
    then have "digits_value (str_nat (n div 10)) = n div 10" by (rule 1)
    with False show ?thesis
      by (subst str_nat.simps) (simp add: digits_value_snoc of_char_digit_char)
  qed
qed

lemma digits_value_zeros: "digits_value (replicate k (CHR ''0'') @ s) = digits_value s"
proof -
  have "foldl (\<lambda>a c. 10 * a + (of_char c - 48)) 0 (replicate k (CHR ''0'')) = (0 :: nat)"
    by (induction k) simp_all
  then show ?thesis by (simp add: digits_value_def)
qed

lemma is_digit_zero: "is_digit (CHR ''0'')"
  by (simp add: is_digit_def)

lemma zero_pad_digits:
  "zero_pad k (str_nat n) \<noteq> [] \<and> list_all is_digit (zero_pad k (str_nat n))"
  using str_nat_digits [of n] by (auto simp: zero_pad_def list_all_iff is_digit_zero)

lemma parse_nat_zero_pad: "parse_nat (zero_pad k (str_nat n)) = Some n"
  using zero_pad_digits [of k n]
  by (simp add: parse_nat_def) (simp add: zero_pad_def digits_value_zeros digits_value_str_nat)

lemma parse_nat_str_nat: "parse_nat (str_nat n) = Some n"
  using str_nat_digits [of n] by (simp add: parse_nat_def digits_value_str_nat)

lemma not_digit_minus: "\<not> is_digit (CHR ''-'')"
  by (simp add: is_digit_def)

lemma parse_int_str_int: "parse_int (str_int i) = Some i"
proof (cases "i < 0")
  case True
  then show ?thesis
    by (simp add: parse_int_def str_int_def parse_nat_str_nat)
next
  case False
  obtain c cs where s: "str_nat (nat i) = c # cs"
    using str_nat_digits [of "nat i"] by (cases "str_nat (nat i)") auto
  with str_nat_digits [of "nat i"] have "is_digit c" by simp
  with not_digit_minus have "c \<noteq> CHR ''-''" by auto
  with False s parse_nat_str_nat [of "nat i"] show ?thesis
    by (simp add: parse_int_def str_int_def)
qed

lemma split_on_no_sep: "sep \<notin> set a \<Longrightarrow> split_on sep a = [a]"
  by (induction a) auto

lemma split_on_append: "sep \<notin> set a \<Longrightarrow> split_on sep (a @ sep # b) = a # split_on sep b"
  by (induction a) auto

lemma digits_exclude: "list_all is_digit s \<Longrightarrow> \<not> is_digit c \<Longrightarrow> c \<notin> set s"
  by (auto simp: list_all_iff)

lemma special_not_digit: "csv_special c \<Longrightarrow> \<not> is_digit c"
  by (auto simp: csv_special_def is_digit_def)

lemma digits_clean: "list_all is_digit s \<Longrightarrow> \<forall>c\<in>set s. \<not> csv_special c"
  using special_not_digit by (auto simp: list_all_iff)

lemma minus_not_special: "\<not> csv_special (CHR ''-'')"
  by (simp add: csv_special_def)

lemma zero_pad_all_digits: "list_all is_digit (zero_pad k (str_nat n))"
  using zero_pad_digits [of k n] by simp

lemma str_nat_all_digits: "list_all is_digit (str_nat n)"
  using str_nat_digits [of n] by simp

lemma parse_date_str_date: "parse_date (str_date d) = Some d"
proof -
  let ?Y = "zero_pad 4 (str_nat (date_year d))"
  let ?M = "zero_pad 2 (str_nat (date_month d))"
  let ?D = "zero_pad 2 (str_nat (date_day d))"
  have n: "CHR ''-'' \<notin> set ?Y" "CHR ''-'' \<notin> set ?M" "CHR ''-'' \<notin> set ?D"
    by (rule digits_exclude [OF zero_pad_all_digits not_digit_minus])+
  have "str_date d = ?Y @ CHR ''-'' # ?M @ CHR ''-'' # ?D"
    by (simp add: str_date_def)
  then have "split_on (CHR ''-'') (str_date d) = [?Y, ?M, ?D]"
    using n by (simp add: split_on_append split_on_no_sep)
  then show ?thesis
    by (simp add: parse_date_def parse_nat_zero_pad)
qed

lemma str_date_clean: "str_date d \<noteq> [] \<and> (\<forall>c\<in>set (str_date d). \<not> csv_special c)"
proof -
  have "\<forall>c\<in>set (zero_pad k (str_nat n)). \<not> csv_special c" for k n
    by (rule digits_clean [OF zero_pad_all_digits])
  then show ?thesis
    using minus_not_special by (auto simp: str_date_def)
qed

lemma str_int_clean: "str_int i \<noteq> [] \<and> (\<forall>c\<in>set (str_int i). \<not> csv_special c)"
proof -
  have "\<forall>c\<in>set (str_nat n). \<not> csv_special c" for n
    by (rule digits_clean [OF str_nat_all_digits])
  then show ?thesis
    using minus_not_special str_nat_digits by (auto simp: str_int_def)
qed

lemma csv_field_clean: "\<forall>c\<in>set s. \<not> csv_special c \<Longrightarrow> csv_field s = s"
  by (simp add: csv_field_def list_ex_iff)

lemma writerow_clean4:
  assumes "\<forall>c\<in>set a. \<not> csv_special c" "\<forall>c\<in>set b. \<not> csv_special c"
    "\<forall>c\<in>set c'. \<not> csv_special c" "\<forall>c\<in>set d. \<not> csv_special c"
  shows "writerow [a, b, c', d] = join_fields [a, b, c', d] @ [CHR 0x0D, CHR 0x0A]"
  using assms by (simp add: writerow_def csv_field_clean)

lemma join4_no_CR:
  assumes "\<forall>c\<in>set a. \<not> csv_special c" "\<forall>c\<in>set b. \<not> csv_special c"
    "\<forall>c\<in>set c'. \<not> csv_special c" "\<forall>c\<in>set d. \<not> csv_special c"
  shows "CHR 0x0D \<notin> set (join_fields [a, b, c', d])"
proof -
  have "csv_special (CHR 0x0D)" by (simp add: csv_special_def)
  with assms show ?thesis by auto
qed

lemma split_join4:
  assumes "\<forall>c\<in>set a. \<not> csv_special c" "\<forall>c\<in>set b. \<not> csv_special c"
    "\<forall>c\<in>set c'. \<not> csv_special c" "\<forall>c\<in>set d. \<not> csv_special c"
  shows "split_on (CHR '','') (join_fields [a, b, c', d]) = [a, b, c', d]"
proof -
  have s: "csv_special (CHR '','')" by (simp add: csv_special_def)
  with assms have "CHR '','' \<notin> set a" "CHR '','' \<notin> set b" "CHR '','' \<notin> set c'"
    "CHR '','' \<notin> set d" by auto
  then show ?thesis by (simp add: split_on_append split_on_no_sep)
qed

lemma csv_lines_append:
  "CHR 0x0D \<notin> set l \<Longrightarrow> csv_lines (l @ CHR 0x0D # CHR 0x0A # rest) = l # csv_lines rest"
proof (induction l)
  case Nil
  show ?case by simp
next
  case (Cons c l)
  from Cons.prems have c: "c \<noteq> CHR 0x0D" and l: "CHR 0x0D \<notin> set l"
    by auto
  from Cons.IH [OF l] have IH: "csv_lines (l @ CHR 0x0D # CHR 0x0A # rest) = l # csv_lines rest" .
  show ?case
  proof (cases l)
    case Nil
    with c show ?thesis by simp
  next
    case (Cons d l')
    with c IH show ?thesis by simp
  qed
qed

lemma cell_clean:
  assumes "\<And>x. v = Some x \<Longrightarrow> \<forall>c\<in>set (to_str x). \<not> csv_special c"
  shows "\<forall>c\<in>set (cell to_str v). \<not> csv_special c"
  using assms by (cases v) (simp_all add: cell_def)

lemma parse_cell_cell:
  assumes "\<And>x. v = Some x \<Longrightarrow> to_str x \<noteq> [] \<and> of_str (to_str x) = Some x"
  shows "parse_cell of_str (cell to_str v) = Some v"
  using assms by (cases v) (simp_all add: cell_def parse_cell_def)

lemma header_clean:
  "\<forall>c\<in>set ''Date''. \<not> csv_special c" "\<forall>c\<in>set ''Sleep Hours''. \<not> csv_special c"
  "\<forall>c\<in>set ''Mood''. \<not> csv_special c" "\<forall>c\<in>set ''Productivity''. \<not> csv_special c"
  by (simp_all add: csv_special_def)

lemma entry_cells_clean:
  assumes "repr_ok float_repr float_of_repr e"
  shows "\<forall>c\<in>set (cell str_date (entry_date e)). \<not> csv_special c"
    and "\<forall>c\<in>set (cell float_repr (sleep_hours e)). \<not> csv_special c"
    and "\<forall>c\<in>set (cell str_int (mood e)). \<not> csv_special c"
    and "\<forall>c\<in>set (cell str_int (productivity e)). \<not> csv_special c"
proof -
  show "\<forall>c\<in>set (cell str_date (entry_date e)). \<not> csv_special c"
    by (rule cell_clean) (simp add: str_date_clean)
  show "\<forall>c\<in>set (cell float_repr (sleep_hours e)). \<not> csv_special c"
    using assms by (intro cell_clean) (simp add: repr_ok_def list_ex_iff)
  show "\<forall>c\<in>set (cell str_int (mood e)). \<not> csv_special c"
    by (rule cell_clean) (simp add: str_int_clean)
  show "\<forall>c\<in>set (cell str_int (productivity e)). \<not> csv_special c"
    by (rule cell_clean) (simp add: str_int_clean)
qed

lemma writerow_entry:
  assumes "repr_ok float_repr float_of_repr e"
  shows "writerow (entry_cells float_repr e) =
           join_fields (entry_cells float_repr e) @ [CHR 0x0D, CHR 0x0A]"
  unfolding entry_cells_def by (rule writerow_clean4 [OF entry_cells_clean [OF assms]])

lemma entry_line_no_CR:
  assumes "repr_ok float_repr float_of_repr e"
  shows "CHR 0x0D \<notin> set (join_fields (entry_cells float_repr e))"
  unfolding entry_cells_def by (rule join4_no_CR [OF entry_cells_clean [OF assms]])

lemma parse_row_entry:
  assumes "repr_ok float_repr float_of_repr e"
  shows "parse_row float_of_repr (join_fields (entry_cells float_repr e)) = Some (entry_tuple e)"
proof -
  have s: "split_on (CHR '','') (join_fields (entry_cells float_repr e)) =
      [cell str_date (entry_date e), cell float_repr (sleep_hours e), cell str_int (mood e),
       cell str_int (productivity e)]"
    unfolding entry_cells_def by (rule split_join4 [OF entry_cells_clean [OF assms]])
  have d: "parse_cell parse_date (cell str_date (entry_date e)) = Some (entry_date e)"
    by (rule parse_cell_cell) (simp add: str_date_clean parse_date_str_date)
  have f: "parse_cell float_of_repr (cell float_repr (sleep_hours e)) = Some (sleep_hours e)"
    using assms by (intro parse_cell_cell) (simp add: repr_ok_def)
  have m: "parse_cell parse_int (cell str_int (mood e)) = Some (mood e)"
    by (rule parse_cell_cell) (simp add: str_int_clean parse_int_str_int)
  have p: "parse_cell parse_int (cell str_int (productivity e)) = Some (productivity e)"
    by (rule parse_cell_cell) (simp add: str_int_clean parse_int_str_int)
  show ?thesis
    unfolding parse_row_def s by (simp add: d f m p entry_tuple_def)
qed

lemma csv_lines_rows:
  assumes "\<forall>e\<in>set es. repr_ok float_repr float_of_repr e"
  shows "csv_lines (concat (map (\<lambda>e. writerow (entry_cells float_repr e)) es)) =
           map (\<lambda>e. join_fields (entry_cells float_repr e)) es"
  using assms
proof (induction es)
  case Nil
  show ?case by simp
next
  case (Cons e es)
  then have e: "repr_ok float_repr float_of_repr e"
    and r: "\<forall>e\<in>set es. repr_ok float_repr float_of_repr e" by simp_all
  show ?case
    using csv_lines_append [OF entry_line_no_CR [OF e]] Cons.IH [OF r]
    by (simp add: writerow_entry [OF e])
qed

text \<open>
  C7. The export starts with the header row Date, Sleep Hours, Mood, Productivity, and reading
  it back gives that header and, row by row, the (date, sleep hours, mood, productivity) of
  the entries in the order the query returns them. The hypothesis is what Python guarantees
  of the \<^verbatim>\<open>repr\<close> of a float: it reads back as the same float, is not empty and contains no
  comma, quote or line break.
\<close>

theorem export_csv_roundtrip:
  assumes "list_all (repr_ok float_repr float_of_repr) tbl"
  shows "parse_export float_of_repr (body (export_csv float_repr tbl)) =
           Some ([''Date'', ''Sleep Hours'', ''Mood'', ''Productivity''],
                 map entry_tuple (query_all tbl))"
proof -
  from assms have ok: "\<forall>e\<in>set tbl. repr_ok float_repr float_of_repr e"
    by (simp add: list_all_iff)
  let ?h = "join_fields [''Date'', ''Sleep Hours'', ''Mood'', ''Productivity'']"
  let ?rows = "concat (map (\<lambda>e. writerow (entry_cells float_repr e)) tbl)"
  have b: "body (export_csv float_repr tbl) = ?h @ CHR 0x0D # CHR 0x0A # ?rows"
    by (simp add: export_csv_def query_all_def writerow_clean4 [OF header_clean])
  have "csv_lines (?h @ CHR 0x0D # CHR 0x0A # ?rows) = ?h # csv_lines ?rows"
    by (rule csv_lines_append) (rule join4_no_CR [OF header_clean])
  then have l: "csv_lines (body (export_csv float_repr tbl)) =
      ?h # map (\<lambda>e. join_fields (entry_cells float_repr e)) tbl"
    unfolding b csv_lines_rows [OF ok] .
  have hs: "split_on (CHR '','') ?h = [''Date'', ''Sleep Hours'', ''Mood'', ''Productivity'']"
    by (rule split_join4 [OF header_clean])
  have "map (parse_row float_of_repr) (map (\<lambda>e. join_fields (entry_cells float_repr e)) tbl) =
      map Some (map entry_tuple tbl)"
    using ok by (simp add: parse_row_entry)
  then have t: "those (map (parse_row float_of_repr)
      (map (\<lambda>e. join_fields (entry_cells float_repr e)) tbl)) = Some (map entry_tuple tbl)"
    by (simp only: those_map_Some)
  show ?thesis
    unfolding parse_export_def l by (simp only: list.case t option.case hs query_all_def)
qed

lemma csv_tbl_ok: "list_all (repr_ok toy_repr toy_float) csv_tbl"
  by (simp add: csv_tbl_def repr_ok_def toy_repr_def toy_float_def csv_special_def)

text \<open>Two entries, the second with no date and no mood.\<close>

theorem export_csv_roundtrip_witness:
  "list_all (repr_ok toy_repr toy_float) csv_tbl \<and>
   parse_export toy_float (body (export_csv toy_repr csv_tbl)) =
     Some ([''Date'', ''Sleep Hours'', ''Mood'', ''Productivity''],
           [(Some \<lparr>date_year = 2024, date_month = 3, date_day = 9\<rparr>, Some (15 / 2), Some 6,
             Some 8),
            (None, Some 8, None, Some (- 2))])"
proof -
  have "map entry_tuple (query_all csv_tbl) =
      [(Some \<lparr>date_year = 2024, date_month = 3, date_day = 9\<rparr>, Some (15 / 2), Some 6, Some 8),
       (None, Some 8, None, Some (- 2))]"
    by (simp add: csv_tbl_def entry_tuple_def query_all_def)
  with export_csv_roundtrip [OF csv_tbl_ok] csv_tbl_ok show ?thesis by simp
qed

text \<open>The text of that export.\<close>

lemma export_csv_example:
  "body (export_csv toy_repr csv_tbl) =
     ''Date,Sleep Hours,Mood,Productivity'' @ [CHR 0x0D, CHR 0x0A] @
     ''2024-03-09,7.5,6,8'' @ [CHR 0x0D, CHR 0x0A] @
     '',8.0,,-2'' @ [CHR 0x0D, CHR 0x0A]"
  by code_simp

end
